theory Spec2Isabelle
  imports Main
begin

section \<open>Values, errors, promises\<close>

text \<open>
  The embedding follows \<^verbatim>\<open>src/jsauce/core.ts\<close>. A JavaScript value of type \<^verbatim>\<open>any\<close>
  (the payload of a message) is a \<open>jsval\<close>; \<open>Undefined\<close> is the value of an argument that
  was not passed.
\<close>

datatype jsval = Undefined | Null | Num int | Str string | Obj "(string \<times> jsval) list"

text \<open>
  The error classes the source names: the two of \<^verbatim>\<open>Errors\<close>, bluebird's
  \<^verbatim>\<open>Promise.TimeoutError\<close> (the class the \<^verbatim>\<open>catch\<close> of \<^verbatim>\<open>_launchLocal\<close> filters on), the
  failure of \<^verbatim>\<open>Options.getOrError\<close>, and any other thrown value, kept by its message.
\<close>

datatype error =
    InvalidProcessSpecType
  | HandshakeTimeoutError
  | TimeoutError
  | MissingOption string
  | Failure string

text \<open>
  A promise is described by how it settles: fulfilled with a value or rejected with an
  error, at a time counted in time-units from the call that created it, or never.
  Durations are natural numbers (a negative, fractional or NaN \<^verbatim>\<open>number\<close> is outside
  the model).
\<close>

datatype 'a promise = Fulfilled nat 'a | Rejected nat error | Pending

text \<open>
  Modelled from the spec: bluebird's \<^verbatim>\<open>.timeout(ms)\<close> is not under src. The spec has the
  handshake wait "bounded by" the timeout, with a reply "received within the bound"
  accepted and a timeout otherwise: a promise that has settled by \<open>ms\<close> keeps its outcome,
  any other is rejected with \<open>TimeoutError\<close> at \<open>ms\<close>, and what the underlying
  promise does later is not seen by the promise returned.
\<close>

fun Promise_timeout :: "nat \<Rightarrow> 'a promise \<Rightarrow> 'a promise" where
  "Promise_timeout ms (Fulfilled d v) =
     (if d \<le> ms then Fulfilled d v else Rejected ms TimeoutError)"
| "Promise_timeout ms (Rejected d e) =
     (if d \<le> ms then Rejected d e else Rejected ms TimeoutError)"
| "Promise_timeout ms Pending = Rejected ms TimeoutError"

text \<open>
  \<^verbatim>\<open>.then(f)\<close>: the callback runs on the state when the promise is fulfilled, and only
  then; what it returns fulfils the new promise, what it throws rejects it.
\<close>

fun Promise_then ::
  "'a promise \<Rightarrow> ('a \<Rightarrow> 's \<Rightarrow> (error + 'b) \<times> 's) \<Rightarrow> 's \<Rightarrow> 'b promise \<times> 's" where
  "Promise_then (Fulfilled d v) f s =
     (case f v s of
        (Inr b, s') \<Rightarrow> (Fulfilled d b, s')
      | (Inl e, s') \<Rightarrow> (Rejected d e, s'))"
| "Promise_then (Rejected d e) f s = (Rejected d e, s)"
| "Promise_then Pending f s = (Pending, s)"

text \<open>
  \<^verbatim>\<open>.catch(ErrorClass, h)\<close>: the handler runs when the promise is rejected with an error
  of the class; every other outcome passes through.
\<close>

fun Promise_catch ::
  "(error \<Rightarrow> bool) \<Rightarrow> 'a promise \<Rightarrow> (error \<Rightarrow> 's \<Rightarrow> (error + 'a) \<times> 's) \<Rightarrow> 's
     \<Rightarrow> 'a promise \<times> 's" where
  "Promise_catch c (Rejected d e) h s =
     (if c e then
        (case h e s of
           (Inr b, s') \<Rightarrow> (Fulfilled d b, s')
         | (Inl e', s') \<Rightarrow> (Rejected d e', s'))
      else (Rejected d e, s))"
| "Promise_catch c (Fulfilled d v) h s = (Fulfilled d v, s)"
| "Promise_catch c Pending h s = (Pending, s)"

text \<open>
  \<^verbatim>\<open>a || b\<close> on an optional number: \<^verbatim>\<open>undefined\<close> and \<^verbatim>\<open>0\<close> are both falsy, so both
  give \<open>b\<close>.
\<close>

definition js_or :: "nat option \<Rightarrow> nat \<Rightarrow> nat" where
  "js_or a b = (case a of None \<Rightarrow> b | Some n \<Rightarrow> if n = 0 then b else n)"

section \<open>Defaults and the message catalog\<close>

definition DefaultProcessHandshakeTimeout :: nat where
  "DefaultProcessHandshakeTimeout = 1000"

record Msg =
  mType :: string
  msg_data :: "jsval option"

definition Messages_Handshake :: Msg where
  "Messages_Handshake = \<lparr>mType = ''handshake'', msg_data = None\<rparr>"

text \<open>
  Modelled from the spec: \<^verbatim>\<open>Lang.makeMTypeBuilder\<close> is not under src. The builder of
  \<^verbatim>\<open>Messages.Message\<close> is declared with the field \<^verbatim>\<open>data\<close> and the default
  \<^verbatim>\<open>{data: null}\<close>; the spec has the envelope carry \<^verbatim>\<open>data\<close>, "default null if absent".
\<close>

definition Messages_Message :: "jsval \<Rightarrow> Msg" where
  "Messages_Message d =
     \<lparr>mType = ''message'', msg_data = Some (if d = Undefined then Null else d)\<rparr>"

section \<open>The transport\<close>

text \<open>
  The transport (thicket's Exchange, Mailbox and Courier) is not under src. Its state, as
  far as this code drives it, is the list of the owner identities that have a mailbox
  and the list of the envelopes handed over for delivery, each with its target address.
  The source reads a mailbox through two accessors, \<^verbatim>\<open>ownerIdentity()\<close> and \<^verbatim>\<open>id()\<close>. The
  first is the identity the mailbox was requested for. The second is the transport's
  own: \<open>ex_assign\<close>, a parameter of the transport, is the identifier it assigns to the
  mailbox of an owner identity.
\<close>

record Mailbox =
  mbox_ownerIdentity :: string
  mbox_id :: string

record Exchange =
  ex_mailboxes :: "string list"
  ex_assign :: "string \<Rightarrow> string"
  ex_sent :: "(string \<times> Msg) list"

text \<open>
  The owner identities with a mailbox, after a request for \<open>a\<close>: an identity is listed
  once.
\<close>

definition with_address :: "string \<Rightarrow> string list \<Rightarrow> string list" where
  "with_address a as = (if a \<in> set as then as else as @ [a])"

text \<open>
  Modelled from the spec: \<^verbatim>\<open>exchange.mailbox(owner)\<close> is not under src. The mailbox
  returned belongs to the identity it was requested for, and its identifier is "assigned
  by the transport at mailbox creation". Addresses are unique: a request for an identity
  that already has a mailbox adds none. What the transport answers to such a request the
  spec does not say; here it is the mailbox of that identity.
\<close>

definition Exchange_mailbox :: "Exchange \<Rightarrow> string \<Rightarrow> Mailbox \<times> Exchange" where
  "Exchange_mailbox ex a =
     (\<lparr>mbox_ownerIdentity = a, mbox_id = ex_assign ex a\<rparr>,
      ex\<lparr>ex_mailboxes := with_address a (ex_mailboxes ex)\<rparr>)"

text \<open>
  Modelled from the spec: \<^verbatim>\<open>courier.send(to, msg)\<close> is not under src; it "forwards" the
  envelope "via the transport" to the address, fire-and-forget.
\<close>

definition Courier_send :: "Exchange \<Rightarrow> string \<Rightarrow> Msg \<Rightarrow> Exchange" where
  "Courier_send ex to msg = ex\<lparr>ex_sent := ex_sent ex @ [(to, msg)]\<rparr>"

text \<open>
  \<^verbatim>\<open>courier.sendAndReceive(to, msg)\<close> hands the request over like \<open>Courier_send\<close> and
  returns the promise of the reply. How that promise settles is decided by the transport
  and by the process behind the address: it is the parameter \<open>hs\<close>.
\<close>

definition Courier_sendAndReceive ::
  "Exchange \<Rightarrow> string \<Rightarrow> Msg \<Rightarrow> jsval promise \<Rightarrow> jsval promise \<times> Exchange" where
  "Courier_sendAndReceive ex to msg hs = (hs, Courier_send ex to msg)"

section \<open>Process specs, PIDs, processes\<close>

datatype ProcessContext = EmptyContext

text \<open>
  \<^verbatim>\<open>ILocalProcessSpec\<close>. The delegate is opaque (\<open>'d\<close>): the source stores it and never
  calls it. \<^verbatim>\<open>delegateBuilder\<close> is caller's code and may throw.
\<close>

record 'd ProcessSpec =
  pType :: string
  handshakeTimeout :: "nat option"
  delegateBuilder :: "ProcessContext \<Rightarrow> error + 'd"

text \<open>
  \<^verbatim>\<open>LocalPid\<close>. The field \<^verbatim>\<open>_processManager\<close> is a reference to the manager object; the
  model keeps what \<^verbatim>\<open>mailboxId()\<close> of that manager returns in its place, and every
  operation of a PID takes the current state of its manager as an argument.
\<close>

record LocalPid =
  pid_mailboxId :: string
  pid_processManager :: string

record 'd LocalProcess =
  lp_id :: string
  lp_pmMboxId :: string
  lp_mailbox :: Mailbox
  lp_delegate :: 'd

text \<open>
  \<^verbatim>\<open>ProcessManager\<close>. \<open>pm_exchange\<close> is the state of the transport the manager holds a
  reference to. The courier has no state of its own here: it is the manager's mailbox
  bound to the manager.
\<close>

record 'd ProcessManager =
  pm_procs :: "string \<rightharpoonup> 'd LocalProcess"
  pm_exchange :: Exchange
  pm_mailbox :: Mailbox
  pm_handshakeTimeout :: nat

record ProcessManagerOpts =
  opt_exchange :: "Exchange option"
  opt_mailboxId :: "string option"

definition LocalPid_new :: "string \<Rightarrow> string \<Rightarrow> LocalPid" where
  "LocalPid_new mailboxId processManager =
     \<lparr>pid_mailboxId = mailboxId, pid_processManager = processManager\<rparr>"

definition LocalPid_id :: "LocalPid \<Rightarrow> string" where
  "LocalPid_id p = pid_mailboxId p"

definition LocalProcess_new :: "string \<Rightarrow> string \<Rightarrow> Mailbox \<Rightarrow> 'd \<Rightarrow> 'd LocalProcess" where
  "LocalProcess_new i processManagerMailboxId mailbox delegate =
     \<lparr>lp_id = i, lp_pmMboxId = processManagerMailboxId, lp_mailbox = mailbox,
      lp_delegate = delegate\<rparr>"

definition LocalProcess_mailboxId :: "'d LocalProcess \<Rightarrow> string" where
  "LocalProcess_mailboxId p = mbox_id (lp_mailbox p)"

section \<open>The process manager\<close>

text \<open>
  The constructor. \<open>u\<close> is the value \<^verbatim>\<open>UUID.v4()\<close> returns: the call is an argument of
  \<^verbatim>\<open>getOrElse\<close>, so it is made whether or not \<^verbatim>\<open>mailboxId\<close> is given.
\<close>

definition ProcessManager_new ::
  "ProcessManagerOpts \<Rightarrow> string \<Rightarrow> error + 'd ProcessManager" where
  "ProcessManager_new opts u =
     (case opt_exchange opts of
        None \<Rightarrow> Inl (MissingOption ''exchange'')
      | Some ex \<Rightarrow>
          (let (mbox, ex') =
                 Exchange_mailbox ex (case opt_mailboxId opts of None \<Rightarrow> u | Some i \<Rightarrow> i)
           in Inr \<lparr>pm_procs = Map.empty, pm_exchange = ex', pm_mailbox = mbox,
                   pm_handshakeTimeout = DefaultProcessHandshakeTimeout\<rparr>))"

definition ProcessManager_mailboxId :: "'d ProcessManager \<Rightarrow> string" where
  "ProcessManager_mailboxId pm = mbox_id (pm_mailbox pm)"

definition ProcessManager_createDelegateContext :: "'d ProcessManager \<Rightarrow> ProcessContext" where
  "ProcessManager_createDelegateContext pm = EmptyContext"

text \<open>
  The declarations that open \<^verbatim>\<open>_launchLocal\<close>: the mailbox, the delegate, the PID and
  the process. A throw of \<^verbatim>\<open>delegateBuilder\<close> leaves the mailbox allocated.
\<close>

definition launchLocal_vars ::
  "'d ProcessManager \<Rightarrow> 'd ProcessSpec \<Rightarrow> string
     \<Rightarrow> (error + Mailbox \<times> LocalPid \<times> 'd LocalProcess) \<times> 'd ProcessManager" where
  "launchLocal_vars pm spec u =
     (let (mbox, ex') = Exchange_mailbox (pm_exchange pm) u;
          pm' = pm\<lparr>pm_exchange := ex'\<rparr>;
          processContext = ProcessManager_createDelegateContext pm'
      in case delegateBuilder spec processContext of
           Inl e \<Rightarrow> (Inl e, pm')
         | Inr delegate \<Rightarrow>
             (let pid = LocalPid_new (mbox_ownerIdentity mbox) (ProcessManager_mailboxId pm');
                  proc = LocalProcess_new (LocalPid_id pid) (ProcessManager_mailboxId pm')
                           mbox delegate
              in (Inr (mbox, pid, proc), pm')))"

text \<open>
  \<^verbatim>\<open>_launchLocal\<close>. \<open>u\<close> is the value \<^verbatim>\<open>UUID.v4()\<close> returns, \<open>hs\<close> how the promise of
  \<^verbatim>\<open>sendAndReceive\<close> settles. The state returned is the manager after every callback of
  the chain that runs has run.
\<close>

definition ProcessManager_launchLocal ::
  "'d ProcessManager \<Rightarrow> 'd ProcessSpec \<Rightarrow> string \<Rightarrow> jsval promise
     \<Rightarrow> LocalPid promise \<times> 'd ProcessManager" where
  "ProcessManager_launchLocal pm spec u hs =
     (case launchLocal_vars pm spec u of
        (Inl e, pm1) \<Rightarrow> (Rejected 0 e, pm1)
      | (Inr (mbox, pid, proc), pm1) \<Rightarrow>
          (let (p0, ex2) = Courier_sendAndReceive (pm_exchange pm1) (mbox_ownerIdentity mbox)
                             Messages_Handshake hs;
               pm2 = pm1\<lparr>pm_exchange := ex2\<rparr>;
               p1 = Promise_timeout
                      (js_or (handshakeTimeout spec) (pm_handshakeTimeout pm2)) p0;
               (p2, pm3) = Promise_then p1
                      (\<lambda>_ this. (Inr pid,
                         this\<lparr>pm_procs := (pm_procs this)(LocalPid_id pid \<mapsto> proc)\<rparr>)) pm2
           in Promise_catch (\<lambda>e. e = TimeoutError) p2
                (\<lambda>err this. (Inl HandshakeTimeoutError, this)) pm3))"

definition ProcessManager_launch ::
  "'d ProcessManager \<Rightarrow> 'd ProcessSpec \<Rightarrow> string \<Rightarrow> jsval promise
     \<Rightarrow> LocalPid promise \<times> 'd ProcessManager" where
  "ProcessManager_launch pm spec u hs =
     (if pType spec = ''local'' then ProcessManager_launchLocal pm spec u hs
      else (Rejected 0 InvalidProcessSpecType, pm))"

definition ProcessManager_sendMessage ::
  "'d ProcessManager \<Rightarrow> string \<Rightarrow> jsval \<Rightarrow> 'd ProcessManager" where
  "ProcessManager_sendMessage pm processMailboxId d =
     pm\<lparr>pm_exchange := Courier_send (pm_exchange pm) processMailboxId (Messages_Message d)\<rparr>"

definition ProcessManager_doesOwn :: "'d ProcessManager \<Rightarrow> LocalPid \<Rightarrow> bool" where
  "ProcessManager_doesOwn pm pid = (pm_procs pm (LocalPid_id pid) \<noteq> None)"

definition ProcessManager_dispose :: "'d ProcessManager \<Rightarrow> 'd ProcessManager" where
  "ProcessManager_dispose pm = pm"

definition LocalPid_send :: "LocalPid \<Rightarrow> jsval \<Rightarrow> 'd ProcessManager \<Rightarrow> 'd ProcessManager" where
  "LocalPid_send pid d pm = ProcessManager_sendMessage pm (pid_mailboxId pid) d"

section \<open>Runs of calls\<close>

text \<open>
  The public operations of a manager and of a PID it handed out, as calls; a launch
  carries the value \<^verbatim>\<open>UUID.v4()\<close> returns during it and the settlement of its handshake.
  \<open>exec\<close> is the manager after one call, \<open>run\<close> after a list of calls, each run to
  completion.
\<close>

datatype 'd call =
    Launch "'d ProcessSpec" string "jsval promise"
  | SendMessage string jsval
  | DoesOwn LocalPid
  | MailboxId
  | Dispose
  | PidSend LocalPid jsval

fun exec :: "'d ProcessManager \<Rightarrow> 'd call \<Rightarrow> 'd ProcessManager" where
  "exec pm (Launch spec u hs) = snd (ProcessManager_launch pm spec u hs)"
| "exec pm (SendMessage t d) = ProcessManager_sendMessage pm t d"
| "exec pm (DoesOwn pid) = pm"
| "exec pm MailboxId = pm"
| "exec pm Dispose = ProcessManager_dispose pm"
| "exec pm (PidSend pid d) = LocalPid_send pid d pm"

definition run :: "'d ProcessManager \<Rightarrow> 'd call list \<Rightarrow> 'd ProcessManager" where
  "run pm cs = foldl exec pm cs"
section \<open>Settlement in time\<close>

text \<open>
  Whether a promise has settled (either way) by the time \<open>ms\<close>.
\<close>

fun settled_by :: "nat \<Rightarrow> 'a promise \<Rightarrow> bool" where
  "settled_by ms (Fulfilled d v) = (d \<le> ms)"
| "settled_by ms (Rejected d e) = (d \<le> ms)"
| "settled_by ms Pending = False"

section \<open>Example inputs\<close>

text \<open>
  A transport that gives the mailbox of an identity an identifier of its own; a manager
  as the constructor leaves it on that transport (own mailbox requested for \<^verbatim>\<open>pm\<close>, empty
  table, default timeout); and a spec with a given tag and timeout whose delegate
  builder returns.
\<close>

definition example_assign :: "string \<Rightarrow> string" where
  "example_assign a = ''mbox-'' @ a"

definition example_manager :: "unit ProcessManager" where
  "example_manager =
     \<lparr>pm_procs = Map.empty,
      pm_exchange = \<lparr>ex_mailboxes = [''pm''], ex_assign = example_assign, ex_sent = []\<rparr>,
      pm_mailbox = \<lparr>mbox_ownerIdentity = ''pm'', mbox_id = ''mbox-pm''\<rparr>,
      pm_handshakeTimeout = 1000\<rparr>"

definition example_spec :: "string \<Rightarrow> nat option \<Rightarrow> unit ProcessSpec" where
  "example_spec tag t = \<lparr>pType = tag, handshakeTimeout = t, delegateBuilder = (\<lambda>ctx. Inr ())\<rparr>"

definition example_opts :: ProcessManagerOpts where
  "example_opts =
     \<lparr>opt_exchange = Some \<lparr>ex_mailboxes = [], ex_assign = example_assign, ex_sent = []\<rparr>,
      opt_mailboxId = Some ''pm''\<rparr>"

text \<open>The example manager after one successful launch, of a process at \<^verbatim>\<open>p1\<close>.\<close>

definition launched_manager :: "unit ProcessManager" where
  "launched_manager =
     snd (ProcessManager_launch example_manager (example_spec ''local'' None) ''p1''
            (Fulfilled 5 Null))"

section \<open>The launch, case by case\<close>

lemma set_with_address: "set (with_address a as) = insert a (set as)"
  by (auto simp: with_address_def)

lemma Promise_timeout_never_Pending: "Promise_timeout ms p \<noteq> Pending"
  by (cases p) auto

lemma launchLocal_vars_built:
  assumes "delegateBuilder spec EmptyContext = Inr dg"
  shows "launchLocal_vars pm spec u =
    (Inr (\<lparr>mbox_ownerIdentity = u, mbox_id = ex_assign (pm_exchange pm) u\<rparr>,
          LocalPid_new u (ProcessManager_mailboxId pm),
          LocalProcess_new u (ProcessManager_mailboxId pm)
            \<lparr>mbox_ownerIdentity = u, mbox_id = ex_assign (pm_exchange pm) u\<rparr> dg),
     pm\<lparr>pm_exchange := (pm_exchange pm)\<lparr>ex_mailboxes := with_address u (ex_mailboxes (pm_exchange pm))\<rparr>\<rparr>)"
  using assms
  by (simp add: launchLocal_vars_def Exchange_mailbox_def ProcessManager_createDelegateContext_def
      LocalPid_new_def LocalPid_id_def ProcessManager_mailboxId_def)

lemma launchLocal_vars_thrown:
  assumes "delegateBuilder spec EmptyContext = Inl e"
  shows "launchLocal_vars pm spec u =
    (Inl e, pm\<lparr>pm_exchange := (pm_exchange pm)\<lparr>ex_mailboxes := with_address u (ex_mailboxes (pm_exchange pm))\<rparr>\<rparr>)"
  using assms
  by (simp add: launchLocal_vars_def Exchange_mailbox_def ProcessManager_createDelegateContext_def)

lemma launchLocal_built:
  assumes "delegateBuilder spec EmptyContext = Inr dg"
  shows "ProcessManager_launchLocal pm spec u hs =
    (case Promise_timeout (js_or (handshakeTimeout spec) (pm_handshakeTimeout pm)) hs of
       Fulfilled d v \<Rightarrow>
         (Fulfilled d (LocalPid_new u (ProcessManager_mailboxId pm)),
          pm\<lparr>pm_exchange := (pm_exchange pm)\<lparr>ex_mailboxes := with_address u (ex_mailboxes (pm_exchange pm)),
                  ex_sent := ex_sent (pm_exchange pm) @ [(u, Messages_Handshake)]\<rparr>,
             pm_procs := (pm_procs pm)(u \<mapsto> LocalProcess_new u (ProcessManager_mailboxId pm)
                  \<lparr>mbox_ownerIdentity = u, mbox_id = ex_assign (pm_exchange pm) u\<rparr> dg)\<rparr>)
     | Rejected d e \<Rightarrow>
         (Rejected d (if e = TimeoutError then HandshakeTimeoutError else e),
          pm\<lparr>pm_exchange := (pm_exchange pm)\<lparr>ex_mailboxes := with_address u (ex_mailboxes (pm_exchange pm)),
                  ex_sent := ex_sent (pm_exchange pm) @ [(u, Messages_Handshake)]\<rparr>\<rparr>)
     | Pending \<Rightarrow>
         (Pending,
          pm\<lparr>pm_exchange := (pm_exchange pm)\<lparr>ex_mailboxes := with_address u (ex_mailboxes (pm_exchange pm)),
                  ex_sent := ex_sent (pm_exchange pm) @ [(u, Messages_Handshake)]\<rparr>\<rparr>))"
  by (simp add: ProcessManager_launchLocal_def launchLocal_vars_built [OF assms]
      Courier_sendAndReceive_def Courier_send_def LocalPid_new_def LocalPid_id_def
      split: promise.splits)

lemma launchLocal_thrown:
  assumes "delegateBuilder spec EmptyContext = Inl e"
  shows "ProcessManager_launchLocal pm spec u hs =
    (Rejected 0 e, pm\<lparr>pm_exchange := (pm_exchange pm)\<lparr>ex_mailboxes := with_address u (ex_mailboxes (pm_exchange pm))\<rparr>\<rparr>)"
  by (simp add: ProcessManager_launchLocal_def launchLocal_vars_thrown [OF assms])

lemma launch_not_local:
  "pType spec \<noteq> ''local'' \<Longrightarrow>
   ProcessManager_launch pm spec u hs = (Rejected 0 InvalidProcessSpecType, pm)"
  by (simp add: ProcessManager_launch_def)

lemma launch_local:
  "pType spec = ''local'' \<Longrightarrow>
   ProcessManager_launch pm spec u hs = ProcessManager_launchLocal pm spec u hs"
  by (simp add: ProcessManager_launch_def)

lemma launchLocal_Fulfilled:
  assumes "fst (ProcessManager_launchLocal pm spec u hs) = Fulfilled d pid"
  shows "LocalPid_id pid = u \<and>
    (\<exists>proc. pm_procs (snd (ProcessManager_launchLocal pm spec u hs)) = (pm_procs pm)(u \<mapsto> proc)
       \<and> LocalProcess_mailboxId proc = ex_assign (pm_exchange pm) u)"
proof (cases "delegateBuilder spec EmptyContext")
  case (Inl e)
  with assms show ?thesis by (simp add: launchLocal_thrown)
next
  case (Inr dg)
  with assms show ?thesis
    by (auto simp: launchLocal_built [OF Inr] LocalPid_new_def LocalPid_id_def
        LocalProcess_new_def LocalProcess_mailboxId_def split: promise.splits)
qed

lemma launchLocal_not_Fulfilled:
  assumes "\<nexists>d pid. fst (ProcessManager_launchLocal pm spec u hs) = Fulfilled d pid"
  shows "pm_procs (snd (ProcessManager_launchLocal pm spec u hs)) = pm_procs pm"
proof (cases "delegateBuilder spec EmptyContext")
  case (Inl e)
  then show ?thesis by (simp add: launchLocal_thrown)
next
  case (Inr dg)
  with assms show ?thesis
    by (auto simp: launchLocal_built [OF Inr] split: promise.splits)
qed

lemma launch_settles: "fst (ProcessManager_launch pm spec u hs) \<noteq> Pending"
proof (cases "pType spec = ''local''")
  case False
  then show ?thesis by (simp add: launch_not_local)
next
  case True
  show ?thesis
  proof (cases "delegateBuilder spec EmptyContext")
    case (Inl e)
    then show ?thesis by (simp add: launch_local [OF True] launchLocal_thrown)
  next
    case (Inr dg)
    then show ?thesis
      using Promise_timeout_never_Pending
        [of "js_or (handshakeTimeout spec) (pm_handshakeTimeout pm)" hs]
      by (simp add: launch_local [OF True] launchLocal_built split: promise.splits)
  qed
qed

lemma Promise_timeout_late:
  "\<not> settled_by ms p \<Longrightarrow> Promise_timeout ms p = Rejected ms TimeoutError"
  by (cases p) auto

subsection \<open>What no call changes\<close>

lemma launch_frame:
  "pm_handshakeTimeout (snd (ProcessManager_launch pm spec u hs)) = pm_handshakeTimeout pm
   \<and> pm_mailbox (snd (ProcessManager_launch pm spec u hs)) = pm_mailbox pm
   \<and> set (ex_mailboxes (pm_exchange pm))
       \<subseteq> set (ex_mailboxes (pm_exchange (snd (ProcessManager_launch pm spec u hs))))
   \<and> dom (pm_procs pm) \<subseteq> dom (pm_procs (snd (ProcessManager_launch pm spec u hs)))"
proof (cases "pType spec = ''local''")
  case False
  then show ?thesis by (simp add: launch_not_local)
next
  case True
  show ?thesis
  proof (cases "delegateBuilder spec EmptyContext")
    case (Inl e)
    then show ?thesis
      by (auto simp: launch_local [OF True] launchLocal_thrown set_with_address)
  next
    case (Inr dg)
    then show ?thesis
      by (auto simp: launch_local [OF True] launchLocal_built set_with_address
          split: promise.splits)
  qed
qed

lemma exec_frame:
  "pm_handshakeTimeout (exec pm c) = pm_handshakeTimeout pm
   \<and> pm_mailbox (exec pm c) = pm_mailbox pm
   \<and> set (ex_mailboxes (pm_exchange pm)) \<subseteq> set (ex_mailboxes (pm_exchange (exec pm c)))
   \<and> dom (pm_procs pm) \<subseteq> dom (pm_procs (exec pm c))"
proof (cases c)
  case (Launch spec u hs)
  then show ?thesis using launch_frame [of pm spec u hs] by simp
qed (simp_all add: ProcessManager_sendMessage_def LocalPid_send_def ProcessManager_dispose_def
    Courier_send_def)

lemma run_frame:
  "pm_handshakeTimeout (run pm cs) = pm_handshakeTimeout pm
   \<and> pm_mailbox (run pm cs) = pm_mailbox pm
   \<and> set (ex_mailboxes (pm_exchange pm)) \<subseteq> set (ex_mailboxes (pm_exchange (run pm cs)))
   \<and> dom (pm_procs pm) \<subseteq> dom (pm_procs (run pm cs))"
proof (induction cs arbitrary: pm)
  case Nil
  show ?case by (simp add: run_def)
next
  case (Cons c cs)
  have step: "run pm (c # cs) = run (exec pm c) cs" by (simp add: run_def)
  from Cons.IH [of "exec pm c"] exec_frame [of pm c]
  show ?case unfolding step by (metis subset_trans)
qed

lemma new_handshakeTimeout:
  "ProcessManager_new opts u0 = Inr pm \<Longrightarrow> pm_handshakeTimeout pm = 1000"
  by (auto simp: ProcessManager_new_def DefaultProcessHandshakeTimeout_def Exchange_mailbox_def
      split: option.splits)

lemma dispose_funpow: "(ProcessManager_dispose ^^ n) pm = pm"
  by (induction n) (simp_all add: ProcessManager_dispose_def)

subsection \<open>The example inputs, evaluated\<close>

lemma example_spec_built: "delegateBuilder (example_spec tag t) EmptyContext = Inr ()"
  by (simp add: example_spec_def)

lemma launch_example:
  "ProcessManager_launch pm (example_spec ''local'' t) u hs =
     ProcessManager_launchLocal pm (example_spec ''local'' t) u hs"
  by (simp add: ProcessManager_launch_def example_spec_def)

lemma example_manager_constructed: "ProcessManager_new example_opts ''u0'' = Inr example_manager"
  by (simp add: ProcessManager_new_def example_opts_def example_manager_def Exchange_mailbox_def
      DefaultProcessHandshakeTimeout_def with_address_def example_assign_def)

lemma launched_manager_eq:
  "launched_manager =
     \<lparr>pm_procs = [''p1'' \<mapsto> LocalProcess_new ''p1'' ''mbox-pm''
                    \<lparr>mbox_ownerIdentity = ''p1'', mbox_id = ''mbox-p1''\<rparr> ()],
      pm_exchange = \<lparr>ex_mailboxes = [''pm'', ''p1''], ex_assign = example_assign,
                      ex_sent = [(''p1'', Messages_Handshake)]\<rparr>,
      pm_mailbox = \<lparr>mbox_ownerIdentity = ''pm'', mbox_id = ''mbox-pm''\<rparr>,
      pm_handshakeTimeout = 1000\<rparr>"
  unfolding launched_manager_def launch_example launchLocal_built [OF example_spec_built]
  by (simp add: js_or_def example_spec_def example_manager_def ProcessManager_mailboxId_def
      with_address_def example_assign_def)


section \<open>Registration\<close>

text \<open>
  C1. A launch that resolves with a PID has inserted an entry under that PID's id, the
  value \<^verbatim>\<open>UUID.v4()\<close> returned: \<open>doesOwn\<close> holds of the PID in the manager the launch
  leaves, and the table is the old one with that single key set. A launch that does
  not resolve with a PID leaves the table as it was. So, when the id was not a key
  before, the launch resolves with a PID if and only if the table has an entry for the
  id afterwards. A table is a map: it has at most one entry for a key.
\<close>

theorem launch_registers_pid:
  "(\<forall>d pid. fst (ProcessManager_launch pm spec u hs) = Fulfilled d pid \<longrightarrow>
      LocalPid_id pid = u \<and>
      ProcessManager_doesOwn (snd (ProcessManager_launch pm spec u hs)) pid \<and>
      (\<exists>proc. pm_procs (snd (ProcessManager_launch pm spec u hs))
                 = (pm_procs pm)(LocalPid_id pid \<mapsto> proc)))
   \<and> ((\<nexists>d pid. fst (ProcessManager_launch pm spec u hs) = Fulfilled d pid) \<longrightarrow>
        pm_procs (snd (ProcessManager_launch pm spec u hs)) = pm_procs pm)
   \<and> (pm_procs pm u = None \<longrightarrow>
        ((\<exists>d pid. fst (ProcessManager_launch pm spec u hs) = Fulfilled d pid)
           \<longleftrightarrow> pm_procs (snd (ProcessManager_launch pm spec u hs)) u \<noteq> None))"
proof (cases "pType spec = ''local''")
  case False
  then show ?thesis by (simp add: launch_not_local)
next
  case True
  let ?r = "ProcessManager_launchLocal pm spec u hs"
  have eq: "ProcessManager_launch pm spec u hs = ?r"
    using True by (rule launch_local)
  have a: "LocalPid_id pid = u \<and> ProcessManager_doesOwn (snd ?r) pid \<and>
      (\<exists>proc. pm_procs (snd ?r) = (pm_procs pm)(LocalPid_id pid \<mapsto> proc))"
    if "fst ?r = Fulfilled d pid" for d pid
    using launchLocal_Fulfilled [OF that] by (auto simp: ProcessManager_doesOwn_def)
  have b: "pm_procs (snd ?r) = pm_procs pm" if "\<nexists>d pid. fst ?r = Fulfilled d pid"
    using that by (rule launchLocal_not_Fulfilled)
  have c: "(\<exists>d pid. fst ?r = Fulfilled d pid) \<longleftrightarrow> pm_procs (snd ?r) u \<noteq> None"
    if fresh: "pm_procs pm u = None"
  proof
    assume "\<exists>d pid. fst ?r = Fulfilled d pid"
    then obtain d pid where "fst ?r = Fulfilled d pid" by blast
    from launchLocal_Fulfilled [OF this] show "pm_procs (snd ?r) u \<noteq> None" by auto
  next
    assume in_table: "pm_procs (snd ?r) u \<noteq> None"
    show "\<exists>d pid. fst ?r = Fulfilled d pid"
    proof (rule ccontr)
      assume "\<nexists>d pid. fst ?r = Fulfilled d pid"
      then have "pm_procs (snd ?r) = pm_procs pm" by (rule launchLocal_not_Fulfilled)
      with fresh in_table show False by simp
    qed
  qed
  show ?thesis unfolding eq using a b c by blast
qed

theorem launch_registers_pid_witness:
  "pm_procs example_manager ''p1'' = None \<and>
   fst (ProcessManager_launch example_manager (example_spec ''local'' None) ''p1'' (Fulfilled 5 Null))
     = Fulfilled 5 (LocalPid_new ''p1'' ''mbox-pm'') \<and>
   ProcessManager_doesOwn
     (snd (ProcessManager_launch example_manager (example_spec ''local'' None) ''p1'' (Fulfilled 5 Null)))
     (LocalPid_new ''p1'' ''mbox-pm'') \<and>
   pm_procs
     (snd (ProcessManager_launch example_manager (example_spec ''local'' None) ''p1'' (Fulfilled 5 Null)))
     ''p1'' \<noteq> None"
proof -
  have run: "fst (ProcessManager_launch example_manager (example_spec ''local'' None) ''p1''
      (Fulfilled 5 Null)) = Fulfilled 5 (LocalPid_new ''p1'' ''mbox-pm'')"
    by (simp add: ProcessManager_launch_def launchLocal_built [where dg = "()"]
        ProcessManager_mailboxId_def js_or_def example_manager_def example_spec_def)
  have fresh: "pm_procs example_manager ''p1'' = None"
    by (simp add: example_manager_def)
  from launch_registers_pid [of example_manager "example_spec ''local'' None" "''p1''"
      "Fulfilled 5 Null"] run fresh
  show ?thesis by blast
qed

section \<open>Handshake timeout\<close>

text \<open>
  C2. A launch of a local spec whose handshake has not settled by the resolved timeout
  (the reply comes later, or never) fails with \<open>HandshakeTimeoutError\<close>, at the timeout,
  and leaves the process table as it was: \<open>doesOwn\<close> answers as before for every PID.
  The state is the one after every callback that runs, so a reply that arrives after
  the timeout registers nothing.
\<close>

theorem launch_handshake_timeout:
  assumes "pType spec = ''local''"
    and "delegateBuilder spec EmptyContext = Inr dg"
    and "\<not> settled_by (js_or (handshakeTimeout spec) (pm_handshakeTimeout pm)) hs"
  shows "fst (ProcessManager_launch pm spec u hs) =
           Rejected (js_or (handshakeTimeout spec) (pm_handshakeTimeout pm)) HandshakeTimeoutError
       \<and> pm_procs (snd (ProcessManager_launch pm spec u hs)) = pm_procs pm
       \<and> ProcessManager_doesOwn (snd (ProcessManager_launch pm spec u hs)) pid
           = ProcessManager_doesOwn pm pid"
  using assms
  by (simp add: launch_local launchLocal_built Promise_timeout_late ProcessManager_doesOwn_def)

theorem launch_handshake_timeout_witness:
  "pType (example_spec ''local'' (Some 50)) = ''local''
   \<and> delegateBuilder (example_spec ''local'' (Some 50)) EmptyContext = Inr ()
   \<and> \<not> settled_by 50 (Fulfilled 80 Null)
   \<and> fst (ProcessManager_launch example_manager (example_spec ''local'' (Some 50)) ''p1''
        (Fulfilled 80 Null)) = Rejected 50 HandshakeTimeoutError
   \<and> pm_procs (snd (ProcessManager_launch example_manager (example_spec ''local'' (Some 50)) ''p1''
        (Fulfilled 80 Null))) ''p1'' = None"
proof -
  have spec: "pType (example_spec ''local'' (Some 50)) = ''local''"
    "delegateBuilder (example_spec ''local'' (Some 50)) EmptyContext = Inr ()"
    by (simp_all add: example_spec_def)
  have bound: "js_or (handshakeTimeout (example_spec ''local'' (Some 50)))
      (pm_handshakeTimeout example_manager) = 50"
    by (simp add: js_or_def example_spec_def)
  have late: "\<not> settled_by (js_or (handshakeTimeout (example_spec ''local'' (Some 50)))
      (pm_handshakeTimeout example_manager)) (Fulfilled 80 Null)"
    by (simp add: bound)
  from launch_handshake_timeout [OF spec late, of "''p1''"] spec bound
  show ?thesis by (simp add: example_manager_def)
qed

section \<open>Invalid spec type\<close>

text \<open>
  C3. A launch of a spec whose \<^verbatim>\<open>pType\<close> is not \<^verbatim>\<open>local\<close> fails with
  \<open>InvalidProcessSpecType\<close> and leaves the manager as it was: no mailbox is requested
  from the exchange and the process table is not touched.
\<close>

theorem launch_invalid_spec_type:
  assumes "pType spec \<noteq> ''local''"
  shows "fst (ProcessManager_launch pm spec u hs) = Rejected 0 InvalidProcessSpecType
       \<and> snd (ProcessManager_launch pm spec u hs) = pm
       \<and> ex_mailboxes (pm_exchange (snd (ProcessManager_launch pm spec u hs)))
           = ex_mailboxes (pm_exchange pm)
       \<and> pm_procs (snd (ProcessManager_launch pm spec u hs)) = pm_procs pm"
  using assms by (simp add: launch_not_local)

theorem launch_invalid_spec_type_witness:
  "pType (example_spec ''remote'' None) \<noteq> ''local''
   \<and> fst (ProcessManager_launch example_manager (example_spec ''remote'' None) ''p1''
        (Fulfilled 5 Null)) = Rejected 0 InvalidProcessSpecType
   \<and> ex_mailboxes (pm_exchange (snd (ProcessManager_launch example_manager
        (example_spec ''remote'' None) ''p1'' (Fulfilled 5 Null)))) = [''pm'']"
proof -
  have tag: "pType (example_spec ''remote'' None) \<noteq> ''local''"
    by (simp add: example_spec_def)
  from launch_invalid_spec_type [OF tag, of example_manager "''p1''" "Fulfilled 5 Null"] tag
  show ?thesis by (simp add: example_manager_def)
qed

section \<open>Sending through a PID after dispose\<close>

text \<open>
  C4, as the code has it. \<^verbatim>\<open>dispose()\<close> has an empty body and nothing records that it
  was called, so a send through a PID after \<^verbatim>\<open>dispose()\<close> is the send before it: the
  \<^verbatim>\<open>message\<close> envelope is handed to the transport for the PID's address, the table is
  untouched, and no error is raised.
\<close>

theorem pid_send_ignores_dispose:
  "LocalPid_send pid d (ProcessManager_dispose pm) = LocalPid_send pid d pm
   \<and> ex_sent (pm_exchange (LocalPid_send pid d (ProcessManager_dispose pm)))
       = ex_sent (pm_exchange pm) @ [(LocalPid_id pid, Messages_Message d)]
   \<and> pm_procs (LocalPid_send pid d (ProcessManager_dispose pm)) = pm_procs pm"
  by (simp add: LocalPid_send_def ProcessManager_dispose_def ProcessManager_sendMessage_def
      Courier_send_def LocalPid_id_def)

text \<open>
  The claim as stated, a send that fails with a "manager disposed" error, does not hold:
  on the example manager after a launch, disposed, the send through the PID of that
  launch goes out as on the live manager.
\<close>

theorem pid_send_after_dispose_delivers:
  "ProcessManager_doesOwn launched_manager (LocalPid_new ''p1'' ''mbox-pm'')
   \<and> LocalPid_send (LocalPid_new ''p1'' ''mbox-pm'') (Num 1) (ProcessManager_dispose launched_manager)
       = LocalPid_send (LocalPid_new ''p1'' ''mbox-pm'') (Num 1) launched_manager
   \<and> ex_sent (pm_exchange (LocalPid_send (LocalPid_new ''p1'' ''mbox-pm'') (Num 1)
        (ProcessManager_dispose launched_manager)))
       = [(''p1'', Messages_Handshake), (''p1'', \<lparr>mType = ''message'', msg_data = Some (Num 1)\<rparr>)]"
  by (simp add: launched_manager_eq ProcessManager_doesOwn_def LocalPid_new_def LocalPid_id_def LocalPid_send_def
      ProcessManager_sendMessage_def ProcessManager_dispose_def Courier_send_def
      Messages_Message_def)

section \<open>The bound of the handshake wait\<close>

text \<open>
  C5, as the code has it. On a manager built by the constructor, after any calls, a
  launch of a local spec whose \<^verbatim>\<open>handshakeTimeout\<close> is not 0 waits for the handshake
  up to the bound \<open>B\<close>: the field when it is present, 1000 when it is absent. A reply
  at time \<open>d\<close> makes the launch resolve exactly when \<open>d \<le> B\<close>, and a handshake that has
  not settled by \<open>B\<close> makes it fail with \<open>HandshakeTimeoutError\<close> at \<open>B\<close>.
\<close>

theorem handshake_wait_bound:
  assumes "ProcessManager_new opts u0 = Inr pm0"
    and "pm = run pm0 cs"
    and "pType spec = ''local''"
    and "delegateBuilder spec EmptyContext = Inr dg"
    and "handshakeTimeout spec \<noteq> Some 0"
    and "B = (case handshakeTimeout spec of Some t \<Rightarrow> t | None \<Rightarrow> 1000)"
  shows "(\<forall>d v. hs = Fulfilled d v \<longrightarrow>
            ((\<exists>pid. fst (ProcessManager_launch pm spec u hs) = Fulfilled d pid) \<longleftrightarrow> d \<le> B))
       \<and> (\<not> settled_by B hs \<longrightarrow>
            fst (ProcessManager_launch pm spec u hs) = Rejected B HandshakeTimeoutError)"
proof -
  have "pm_handshakeTimeout pm = 1000"
    using assms(1,2) run_frame [of pm0 cs] by (simp add: new_handshakeTimeout)
  then have bound: "js_or (handshakeTimeout spec) (pm_handshakeTimeout pm) = B"
    using assms(5,6) by (auto simp: js_or_def split: option.splits)
  show ?thesis
    using assms(3,4) bound
    by (cases hs) (auto simp: launch_local launchLocal_built)
qed

theorem handshake_wait_bound_witness:
  "ProcessManager_new example_opts ''u0'' = Inr example_manager
   \<and> example_manager = run example_manager []
   \<and> handshakeTimeout (example_spec ''local'' (Some 50)) \<noteq> Some 0
   \<and> \<not> settled_by 50 (Fulfilled 80 Null)
   \<and> fst (ProcessManager_launch example_manager (example_spec ''local'' (Some 50)) ''p1''
        (Fulfilled 80 Null)) = Rejected 50 HandshakeTimeoutError"
proof -
  have spec: "pType (example_spec ''local'' (Some 50)) = ''local''"
    "delegateBuilder (example_spec ''local'' (Some 50)) EmptyContext = Inr ()"
    "handshakeTimeout (example_spec ''local'' (Some 50)) \<noteq> Some 0"
    "(50::nat) = (case handshakeTimeout (example_spec ''local'' (Some 50)) of
        Some t \<Rightarrow> t | None \<Rightarrow> 1000)"
    by (simp_all add: example_spec_def)
  have start: "example_manager = run example_manager []"
    by (simp add: run_def)
  from handshake_wait_bound [OF example_manager_constructed start spec,
      of "Fulfilled 80 Null" "''p1''"] example_manager_constructed start spec(3)
  show ?thesis by simp
qed

text \<open>
  The claim as stated includes a \<^verbatim>\<open>handshakeTimeout\<close> of 0. There \<^verbatim>\<open>||\<close> takes the
  manager's default: a reply after 500 time-units is accepted, and a silent handshake
  times out at 1000.
\<close>

theorem handshake_timeout_zero_not_honoured:
  "handshakeTimeout (example_spec ''local'' (Some 0)) = Some 0
   \<and> fst (ProcessManager_launch example_manager (example_spec ''local'' (Some 0)) ''p1''
        (Fulfilled 500 Null)) = Fulfilled 500 (LocalPid_new ''p1'' ''mbox-pm'')
   \<and> fst (ProcessManager_launch example_manager (example_spec ''local'' (Some 0)) ''p1''
        Pending) = Rejected 1000 HandshakeTimeoutError"
  unfolding launch_example launchLocal_built [OF example_spec_built]
  by (simp add: js_or_def example_spec_def example_manager_def ProcessManager_mailboxId_def)

section \<open>Sending messages\<close>

text \<open>
  C6. \<^verbatim>\<open>sendMessage(targetId, data)\<close> hands one \<^verbatim>\<open>message\<close> envelope to the transport
  for \<^verbatim>\<open>targetId\<close>, carrying \<^verbatim>\<open>data\<close>, or \<^verbatim>\<open>null\<close> when \<^verbatim>\<open>data\<close> is undefined, whatever
  the process table holds; and \<^verbatim>\<open>pid.send(data)\<close> is the manager's
  \<^verbatim>\<open>sendMessage(pid.id(), data)\<close>.
\<close>

theorem sendMessage_forwards:
  "ProcessManager_sendMessage pm targetId d =
     pm\<lparr>pm_exchange := (pm_exchange pm)\<lparr>ex_sent := ex_sent (pm_exchange pm) @
        [(targetId, Messages_Message d)]\<rparr>\<rparr>
   \<and> mType (Messages_Message d) = ''message''
   \<and> msg_data (Messages_Message d) = Some (if d = Undefined then Null else d)
   \<and> LocalPid_send pid d pm = ProcessManager_sendMessage pm (LocalPid_id pid) d"
  by (simp add: ProcessManager_sendMessage_def LocalPid_send_def LocalPid_id_def
      Courier_send_def Messages_Message_def)

theorem sendMessage_forwards_witness:
  "pm_procs example_manager ''nobody'' = None
   \<and> ex_sent (pm_exchange (ProcessManager_sendMessage example_manager ''nobody'' Undefined))
       = [(''nobody'', \<lparr>mType = ''message'', msg_data = Some Null\<rparr>)]
   \<and> ex_sent (pm_exchange (LocalPid_send (LocalPid_new ''p1'' ''mbox-pm'') (Num 1) example_manager))
       = [(''p1'', \<lparr>mType = ''message'', msg_data = Some (Num 1)\<rparr>)]"
  using sendMessage_forwards [of example_manager "''nobody''" Undefined]
    sendMessage_forwards [of example_manager "''p1''" "Num 1" "LocalPid_new ''p1'' ''mbox-pm''"]
  by (simp add: example_manager_def LocalPid_id_def LocalPid_new_def Messages_Message_def)

section \<open>Handshake failures other than the timeout\<close>

text \<open>
  C8, as the code has it. When the handshake promise is rejected within the bound with
  an error that is not bluebird's \<open>TimeoutError\<close>, the launch is rejected with that same
  error at that same time; the table is as it was, and one handshake request was handed
  to the transport, no second one.
\<close>

theorem handshake_failure_propagates:
  assumes "pType spec = ''local''"
    and "delegateBuilder spec EmptyContext = Inr dg"
    and "hs = Rejected d e"
    and "d \<le> js_or (handshakeTimeout spec) (pm_handshakeTimeout pm)"
    and "e \<noteq> TimeoutError"
  shows "fst (ProcessManager_launch pm spec u hs) = Rejected d e
       \<and> pm_procs (snd (ProcessManager_launch pm spec u hs)) = pm_procs pm
       \<and> ex_sent (pm_exchange (snd (ProcessManager_launch pm spec u hs)))
           = ex_sent (pm_exchange pm) @ [(u, Messages_Handshake)]"
  using assms by (simp add: launch_local launchLocal_built)

theorem handshake_failure_propagates_witness:
  "pType (example_spec ''local'' None) = ''local''
   \<and> delegateBuilder (example_spec ''local'' None) EmptyContext = Inr ()
   \<and> (5::nat) \<le> js_or (handshakeTimeout (example_spec ''local'' None))
                   (pm_handshakeTimeout example_manager)
   \<and> Failure ''refused'' \<noteq> TimeoutError
   \<and> fst (ProcessManager_launch example_manager (example_spec ''local'' None) ''p1''
        (Rejected 5 (Failure ''refused''))) = Rejected 5 (Failure ''refused'')
   \<and> ex_sent (pm_exchange (snd (ProcessManager_launch example_manager
        (example_spec ''local'' None) ''p1'' (Rejected 5 (Failure ''refused'')))))
       = [(''p1'', Messages_Handshake)]"
proof -
  have spec: "pType (example_spec ''local'' None) = ''local''"
    "delegateBuilder (example_spec ''local'' None) EmptyContext = Inr ()"
    by (simp_all add: example_spec_def)
  have early: "(5::nat) \<le> js_or (handshakeTimeout (example_spec ''local'' None))
      (pm_handshakeTimeout example_manager)"
    by (simp add: js_or_def example_spec_def example_manager_def)
  have other: "Failure ''refused'' \<noteq> TimeoutError" by simp
  from handshake_failure_propagates [OF spec refl early other, of "''p1''"] spec early
  show ?thesis by (simp add: example_manager_def)
qed

text \<open>
  The claim as stated covers every failure other than the timeout elapsing. The
  \<^verbatim>\<open>catch\<close> filters on the class of the error, not on where it came from: a handshake
  rejected at time 5, long before the bound of 1000, with a \<open>TimeoutError\<close> of its own
  reaches the caller as \<open>HandshakeTimeoutError\<close>.
\<close>

theorem handshake_TimeoutError_rejection_converted:
  "fst (ProcessManager_launch example_manager (example_spec ''local'' None) ''p1''
      (Rejected 5 TimeoutError)) = Rejected 5 HandshakeTimeoutError"
  unfolding launch_example launchLocal_built [OF example_spec_built]
  by (simp add: js_or_def example_spec_def example_manager_def)

section \<open>The address of a PID and the mailbox of its process\<close>

text \<open>
  C9, at a failing input. The claim has \<^verbatim>\<open>pid.id()\<close> equal to \<^verbatim>\<open>process.mailboxId()\<close>
  for the pair a launch constructs, and the comment on \<^verbatim>\<open>LocalPid.id\<close> has the id be
  the mailbox id. The code reads the first from the mailbox's \<^verbatim>\<open>ownerIdentity()\<close> and
  the second from its \<^verbatim>\<open>id()\<close>, and checks nothing at construction. On the example
  transport, whose mailboxes have identifiers of their own, the launch that draws
  \<^verbatim>\<open>p1\<close> constructs and registers a PID with id \<^verbatim>\<open>p1\<close> and a process whose
  \<^verbatim>\<open>mailboxId()\<close> is \<^verbatim>\<open>mbox-p1\<close>.
\<close>

theorem pid_id_differs_from_process_mailboxId:
  "launchLocal_vars example_manager (example_spec ''local'' None) ''p1'' =
     (Inr (\<lparr>mbox_ownerIdentity = ''p1'', mbox_id = ''mbox-p1''\<rparr>,
           LocalPid_new ''p1'' ''mbox-pm'',
           LocalProcess_new ''p1'' ''mbox-pm''
             \<lparr>mbox_ownerIdentity = ''p1'', mbox_id = ''mbox-p1''\<rparr> ()),
      example_manager\<lparr>pm_exchange := (pm_exchange example_manager)
        \<lparr>ex_mailboxes := [''pm'', ''p1'']\<rparr>\<rparr>)
   \<and> LocalPid_id (LocalPid_new ''p1'' ''mbox-pm'') = ''p1''
   \<and> LocalProcess_mailboxId (LocalProcess_new ''p1'' ''mbox-pm''
         \<lparr>mbox_ownerIdentity = ''p1'', mbox_id = ''mbox-p1''\<rparr> ()) = ''mbox-p1''
   \<and> fst (ProcessManager_launch example_manager (example_spec ''local'' None) ''p1''
        (Fulfilled 5 Null)) = Fulfilled 5 (LocalPid_new ''p1'' ''mbox-pm'')
   \<and> map_option LocalProcess_mailboxId (pm_procs launched_manager ''p1'') = Some ''mbox-p1''"
proof -
  have vars: "launchLocal_vars example_manager (example_spec ''local'' None) ''p1'' =
     (Inr (\<lparr>mbox_ownerIdentity = ''p1'', mbox_id = ''mbox-p1''\<rparr>,
           LocalPid_new ''p1'' ''mbox-pm'',
           LocalProcess_new ''p1'' ''mbox-pm''
             \<lparr>mbox_ownerIdentity = ''p1'', mbox_id = ''mbox-p1''\<rparr> ()),
      example_manager\<lparr>pm_exchange := (pm_exchange example_manager)
        \<lparr>ex_mailboxes := [''pm'', ''p1'']\<rparr>\<rparr>)"
    by (simp add: launchLocal_vars_built [OF example_spec_built] example_manager_def
        ProcessManager_mailboxId_def with_address_def example_assign_def)
  have ids: "LocalPid_id (LocalPid_new ''p1'' ''mbox-pm'') = ''p1''"
    "LocalProcess_mailboxId (LocalProcess_new ''p1'' ''mbox-pm''
         \<lparr>mbox_ownerIdentity = ''p1'', mbox_id = ''mbox-p1''\<rparr> ()) = ''mbox-p1''"
    by (simp_all add: LocalPid_id_def LocalPid_new_def LocalProcess_mailboxId_def
        LocalProcess_new_def)
  have launched: "fst (ProcessManager_launch example_manager (example_spec ''local'' None) ''p1''
        (Fulfilled 5 Null)) = Fulfilled 5 (LocalPid_new ''p1'' ''mbox-pm'')"
    unfolding launch_example launchLocal_built [OF example_spec_built]
    by (simp add: js_or_def example_spec_def example_manager_def ProcessManager_mailboxId_def)
  have table: "map_option LocalProcess_mailboxId (pm_procs launched_manager ''p1'')
      = Some ''mbox-p1''"
    by (simp add: launched_manager_eq ids)
  from vars ids launched table show ?thesis by simp
qed

section \<open>Dispose\<close>

text \<open>
  C10. \<^verbatim>\<open>dispose()\<close>, called any number of times, returns and leaves the manager as it
  was: \<open>doesOwn\<close> answers as before for every PID, \<open>mailboxId\<close> is the same address, the
  table is untouched. And no run of calls of the manager removes a key from the table.
\<close>

theorem dispose_changes_nothing:
  "(ProcessManager_dispose ^^ n) pm = pm
   \<and> ProcessManager_doesOwn ((ProcessManager_dispose ^^ n) pm) pid = ProcessManager_doesOwn pm pid
   \<and> ProcessManager_mailboxId ((ProcessManager_dispose ^^ n) pm) = ProcessManager_mailboxId pm
   \<and> pm_procs ((ProcessManager_dispose ^^ n) pm) = pm_procs pm
   \<and> dom (pm_procs pm) \<subseteq> dom (pm_procs (run pm cs))"
  using run_frame [of pm cs] by (simp add: dispose_funpow)

theorem dispose_changes_nothing_witness:
  "(ProcessManager_dispose ^^ 2) launched_manager = launched_manager
   \<and> ProcessManager_doesOwn ((ProcessManager_dispose ^^ 2) launched_manager)
       (LocalPid_new ''p1'' ''mbox-pm'')
   \<and> ProcessManager_mailboxId ((ProcessManager_dispose ^^ 2) launched_manager) = ''mbox-pm''
   \<and> ''p1'' \<in> dom (pm_procs (run launched_manager [Dispose, SendMessage ''p1'' Null, Dispose]))"
proof -
  have owned: "ProcessManager_doesOwn launched_manager (LocalPid_new ''p1'' ''mbox-pm'')"
    by (simp add: ProcessManager_doesOwn_def LocalPid_id_def LocalPid_new_def launched_manager_eq)
  have addr: "ProcessManager_mailboxId launched_manager = ''mbox-pm''"
    by (simp add: ProcessManager_mailboxId_def launched_manager_eq)
  have key: "''p1'' \<in> dom (pm_procs launched_manager)"
    by (simp add: launched_manager_eq)
  from dispose_changes_nothing [of 2 launched_manager "LocalPid_new ''p1'' ''mbox-pm''"
      "[Dispose, SendMessage ''p1'' Null, Dispose]"] owned addr key
  show ?thesis by auto
qed

end
